theory Spec2Isabelle
  imports Complex_Main "HOL-Library.Word"
begin

section \<open>JavaScript values that cross the wire\<close>

text \<open>
  Both programs exchange JSON text frames. A parsed frame is a \<open>json\<close> document; a
  JavaScript value read out of one is a \<open>jsvalue\<close>, where \<open>None\<close> stands for
  \<^verbatim>\<open>undefined\<close> (a property that is not there). An object lists its own
  properties, each name once. Strings are lists of one-byte characters and numbers are
  real numbers; the frames of these programs hold identifiers, base-64 text and byte
  values, for which nothing more is needed.
\<close>

datatype json =
    JNull
  | JBool bool
  | JNum real
  | JStr string
  | JArr "json list"
  | JObj "(string \<times> json) list"

type_synonym jsvalue = "json option"

datatype error =
    SyntaxError
  | TypeError
  | InvalidCharacterError
  | DataError
  | OperationError

text \<open>
  Property access \<^verbatim>\<open>v.k\<close> on a parsed document. On \<^verbatim>\<open>null\<close> it throws a
  TypeError; on an object it reads the own property; on numbers, strings, booleans and
  arrays the names used by these programs (type, key, for, to, from, ciphertext, iv, data,
  sessionId, senderPublicKey) are not defined, so the result is \<^verbatim>\<open>undefined\<close>.
\<close>

fun get_prop :: "json \<Rightarrow> string \<Rightarrow> error + jsvalue" where
  "get_prop JNull k = Inl TypeError"
| "get_prop (JObj kvs) k = Inr (map_of kvs k)"
| "get_prop v k = Inr None"

text \<open>The same access where the base is already known not to be null.\<close>

fun prop_of :: "json \<Rightarrow> string \<Rightarrow> jsvalue" where
  "prop_of (JObj kvs) k = map_of kvs k"
| "prop_of v k = None"

text \<open>JavaScript truthiness, as tested by \<^verbatim>\<open>if (v)\<close>.\<close>

fun truthy :: "jsvalue \<Rightarrow> bool" where
  "truthy None = False"
| "truthy (Some JNull) = False"
| "truthy (Some (JBool b)) = b"
| "truthy (Some (JNum x)) = (x \<noteq> 0)"
| "truthy (Some (JStr s)) = (s \<noteq> [])"
| "truthy (Some (JArr xs)) = True"
| "truthy (Some (JObj kvs)) = True"

text \<open>
  \<^verbatim>\<open>JSON.stringify\<close> of an object literal built by the code: a property whose value is
  \<^verbatim>\<open>undefined\<close> is left out of the written document. The values below come out of
  parsed documents or are strings, so nothing needs rewriting inside them.
\<close>

definition JSON_stringify :: "(string \<times> jsvalue) list \<Rightarrow> json" where
  "JSON_stringify props =
     JObj (List.map_filter (\<lambda>(k, v). map_option (Pair k) v) props)"

section \<open>The relay (server)\<close>

type_synonym sock = nat

text \<open>A connected client session; \<open>publicKey\<close> is \<open>None\<close> until one is stored.\<close>

record Client =
  id' :: string
  socket :: sock
  publicKey :: jsvalue

datatype log_entry =
    Console_warn string
  | Console_error error

text \<open>
  The process state: the map \<^verbatim>\<open>clients\<close>, every frame written with
  \<^verbatim>\<open>socket.send\<close> (in order, with the socket it was written to), the console, and for
  each open connection the \<^verbatim>\<open>sessionId\<close> its handlers closed over.
\<close>

record server =
  clients :: "string \<rightharpoonup> Client"
  outbox :: "(sock \<times> json) list"
  console :: "log_entry list"
  closures :: "sock \<rightharpoonup> string"

definition send :: "sock \<Rightarrow> (string \<times> jsvalue) list \<Rightarrow> server \<Rightarrow> server" where
  "send ws props st = st\<lparr>outbox := outbox st @ [(ws, JSON_stringify props)]\<rparr>"

subsection \<open>Session identifiers\<close>

text \<open>The digit of a number below ten, and the decimal numeral of a natural number.\<close>

definition digit_char :: "nat \<Rightarrow> char" where
  "digit_char n = ''0123456789'' ! n"

fun decimal :: "nat \<Rightarrow> string" where
  "decimal n = (if n < 10 then [digit_char n] else decimal (n div 10) @ [digit_char (n mod 10)])"

declare decimal.simps [simp del]

text \<open>\<^verbatim>\<open>Number.prototype.toString\<close> on an integral number.\<close>

definition toString :: "int \<Rightarrow> string" where
  "toString i = (if i < 0 then CHR ''-'' # decimal (nat (- i)) else decimal (nat i))"

text \<open>
  \<^verbatim>\<open>Math.floor(100000 + Math.random() * 900000).toString()\<close>. The draw of
  \<^verbatim>\<open>Math.random()\<close> is the argument \<open>r\<close>, a number with \<open>0 \<le> r < 1\<close>, read as a
  real number.
\<close>

definition generateSessionId :: "real \<Rightarrow> string" where
  "generateSessionId r = toString \<lfloor>100000 + r * 900000\<rfloor>"

subsection \<open>Connection, message and close handlers\<close>

definition on_connection :: "real \<Rightarrow> sock \<Rightarrow> server \<Rightarrow> server" where
  "on_connection r ws st =
     (let sessionId = generateSessionId r;
          st1 = st\<lparr>clients := (clients st)(sessionId \<mapsto>
                       \<lparr>id' = sessionId, socket = ws, publicKey = None\<rparr>)\<rparr>;
          st2 = send ws [(''type'', Some (JStr ''init'')),
                         (''sessionId'', Some (JStr sessionId))] st1
      in st2\<lparr>closures := (closures st2)(ws \<mapsto> sessionId)\<rparr>)"

text \<open>
  \<^verbatim>\<open>clients.get(v)\<close>: every key of the map is a string (a session identifier), so a
  value that is not a string finds nothing.
\<close>

fun clients_get :: "server \<Rightarrow> jsvalue \<Rightarrow> Client option" where
  "clients_get st (Some (JStr s)) = clients st s"
| "clients_get st v = None"

text \<open>\<^verbatim>\<open>c?.publicKey\<close>\<close>

fun opt_publicKey :: "Client option \<Rightarrow> jsvalue" where
  "opt_publicKey None = None"
| "opt_publicKey (Some c) = publicKey c"

text \<open>The body of the \<^verbatim>\<open>try\<close> block, after the frame has been parsed.\<close>

definition dispatch :: "string \<Rightarrow> sock \<Rightarrow> json \<Rightarrow> server \<Rightarrow> error + server" where
  "dispatch sessionId ws parsed st =
     (case get_prop parsed ''type'' of
        Inl e \<Rightarrow> Inl e
      | Inr ty \<Rightarrow>
          if ty = Some (JStr ''publicKey'') then
            (case clients st sessionId of
               None \<Rightarrow> Inl TypeError
             | Some c \<Rightarrow>
                 Inr (st\<lparr>clients := (clients st)(sessionId \<mapsto>
                            c\<lparr>publicKey := prop_of parsed ''key''\<rparr>)\<rparr>))
          else if ty = Some (JStr ''getPublicKey'') then
            (let recipient = clients_get st (prop_of parsed ''for'') in
               if truthy (opt_publicKey recipient) then
                 Inr (send ws [(''type'', Some (JStr ''publicKey'')),
                               (''for'', prop_of parsed ''for''),
                               (''key'', opt_publicKey recipient)] st)
               else Inr st)
          else if ty = Some (JStr ''message'') then
            (case clients_get st (prop_of parsed ''to'') of
               None \<Rightarrow> Inr st
             | Some recipient \<Rightarrow>
                 (let senderPublicKey = opt_publicKey (clients st sessionId) in
                    Inr (send (socket recipient)
                           [(''type'', Some (JStr ''message'')),
                            (''from'', Some (JStr sessionId)),
                            (''ciphertext'', prop_of parsed ''ciphertext''),
                            (''senderPublicKey'', senderPublicKey)] st)))
          else Inr (st\<lparr>console := console st @ [Console_warn ''Unknown message type'']\<rparr>))"

text \<open>
  The \<^verbatim>\<open>message\<close> handler of one connection. \<open>parse\<close> is \<^verbatim>\<open>JSON.parse\<close>, which
  throws a SyntaxError on text that is not JSON; whatever is thrown inside the
  \<^verbatim>\<open>try\<close> block ends in \<^verbatim>\<open>console.error\<close>.
\<close>

definition on_message ::
  "(string \<Rightarrow> error + json) \<Rightarrow> string \<Rightarrow> sock \<Rightarrow> string \<Rightarrow> server \<Rightarrow> server" where
  "on_message parse sessionId ws data st =
     (case parse data of
        Inl e \<Rightarrow> st\<lparr>console := console st @ [Console_error e]\<rparr>
      | Inr parsed \<Rightarrow>
          (case dispatch sessionId ws parsed st of
             Inl e \<Rightarrow> st\<lparr>console := console st @ [Console_error e]\<rparr>
           | Inr st' \<Rightarrow> st'))"

definition on_close :: "string \<Rightarrow> sock \<Rightarrow> server \<Rightarrow> server" where
  "on_close sessionId ws st =
     st\<lparr>clients := (clients st)(sessionId := None), closures := (closures st)(ws := None)\<rparr>"

subsection \<open>Runs of the relay\<close>

datatype event =
    Connection sock real
  | Frame sock string
  | Close sock

definition startup :: server where
  "startup = \<lparr>clients = Map.empty, outbox = [], console = [], closures = Map.empty\<rparr>"

text \<open>
  An event of a socket reaches the handlers registered for it: a connection event comes
  with a socket that has no handlers yet, frames and the close event come on a socket
  that has them.
\<close>

fun step :: "(string \<Rightarrow> error + json) \<Rightarrow> server \<Rightarrow> event \<Rightarrow> server" where
  "step parse st (Connection ws r) =
     (if ws \<in> dom (closures st) \<or> \<not> (0 \<le> r \<and> r < 1) then st else on_connection r ws st)"
| "step parse st (Frame ws data) =
     (case closures st ws of None \<Rightarrow> st | Some sessionId \<Rightarrow> on_message parse sessionId ws data st)"
| "step parse st (Close ws) =
     (case closures st ws of None \<Rightarrow> st | Some sessionId \<Rightarrow> on_close sessionId ws st)"

definition run :: "(string \<Rightarrow> error + json) \<Rightarrow> event list \<Rightarrow> server" where
  "run parse evs = foldl (step parse) startup evs"

text \<open>The kind of a parsed frame is one the relay dispatches on.\<close>

definition known_kind :: "json \<Rightarrow> bool" where
  "known_kind parsed =
     (get_prop parsed ''type'' \<in> {Inr (Some (JStr ''publicKey'')),
         Inr (Some (JStr ''getPublicKey'')), Inr (Some (JStr ''message''))})"


text \<open>The level of a console entry: \<^verbatim>\<open>console.warn\<close> or \<^verbatim>\<open>console.error\<close>.\<close>

fun warning_level :: "log_entry \<Rightarrow> bool" where
  "warning_level (Console_warn text) = True"
| "warning_level (Console_error e) = False"

section \<open>The browser client\<close>

type_synonym byte = "8 word"

text \<open>
  What the browser provides and the script calls: \<^verbatim>\<open>JSON.parse\<close>, \<^verbatim>\<open>atob\<close> and
  \<^verbatim>\<open>btoa\<close>, the Web Crypto operations on ECDH P-256 keys and AES-GCM keys (raw export and
  import of a public key, key derivation, encryption and decryption), the UTF-8 text
  encoder and decoder, and the \<^verbatim>\<open>Uint8Array\<close> constructor on a value that is not an array
  of numbers. None of it is code of the repository, so the script is modelled over any
  such platform; keys are opaque handles of the types \<open>'priv\<close>, \<open>'pub\<close> and \<open>'key\<close>.
  An operation that can reject returns in a sum, \<open>Inl\<close> being the exception.
\<close>

record ('priv, 'pub, 'key) platform =
  JSON_parse :: "string \<Rightarrow> error + json"
  atob :: "jsvalue \<Rightarrow> error + string"
  btoa :: "string \<Rightarrow> string"
  exportKey :: "'pub \<Rightarrow> byte list"
  importKey :: "byte list \<Rightarrow> error + 'pub"
  deriveKey :: "'priv \<Rightarrow> 'pub \<Rightarrow> 'key"
  encrypt :: "'key \<Rightarrow> byte list \<Rightarrow> byte list \<Rightarrow> byte list"
  decrypt :: "'key \<Rightarrow> byte list \<Rightarrow> byte list \<Rightarrow> error + byte list"
  encode :: "string \<Rightarrow> byte list"
  decode :: "byte list \<Rightarrow> string"
  Uint8Array_of :: "jsvalue \<Rightarrow> error + byte list"

text \<open>A \<^verbatim>\<open>CryptoKeyPair\<close>, and an entry of the map \<^verbatim>\<open>peers\<close>.\<close>

record ('priv, 'pub) CryptoKeyPair =
  privateKey :: 'priv
  publicKey_kp :: 'pub

record ('pub, 'key) Peer =
  publicKey_peer :: 'pub
  sharedKey :: 'key

subsection \<open>Keys\<close>

text \<open>\<^verbatim>\<open>String.fromCharCode(...bytes)\<close> and \<^verbatim>\<open>c => c.charCodeAt(0)\<close> on a binary string.\<close>

definition fromCharCode :: "byte list \<Rightarrow> string" where
  "fromCharCode bytes = map (\<lambda>b. char_of (unat b)) bytes"

definition charCodes :: "string \<Rightarrow> byte list" where
  "charCodes binary = map (\<lambda>c. word_of_nat (of_char c)) binary"

definition exportPublicKey :: "('priv, 'pub, 'key) platform \<Rightarrow> 'pub \<Rightarrow> string" where
  "exportPublicKey pf key = btoa pf (fromCharCode (exportKey pf key))"

definition importPublicKey :: "('priv, 'pub, 'key) platform \<Rightarrow> jsvalue \<Rightarrow> error + 'pub" where
  "importPublicKey pf base64Key =
     (case atob pf base64Key of
        Inl e \<Rightarrow> Inl e
      | Inr binary \<Rightarrow> importKey pf (charCodes binary))"

definition deriveSharedKey :: "('priv, 'pub, 'key) platform \<Rightarrow> 'priv \<Rightarrow> 'pub \<Rightarrow> 'key" where
  "deriveSharedKey pf privateKey' publicKey' = deriveKey pf privateKey' publicKey'"

subsection \<open>Envelopes\<close>

text \<open>\<^verbatim>\<open>Array.from\<close> on a \<^verbatim>\<open>Uint8Array\<close>: the bytes as numbers.\<close>

definition Array_from :: "byte list \<Rightarrow> json" where
  "Array_from bytes = JArr (map (\<lambda>b. JNum (real (unat b))) bytes)"

text \<open>
  \<^verbatim>\<open>encryptWithKey\<close>. The twelve bytes of \<^verbatim>\<open>crypto.getRandomValues\<close> are the argument
  \<open>iv\<close>. The result is the object \<^verbatim>\<open>{iv, data}\<close> of two number arrays.
\<close>

definition encryptWithKey ::
  "('priv, 'pub, 'key) platform \<Rightarrow> byte list \<Rightarrow> 'key \<Rightarrow> string \<Rightarrow> json" where
  "encryptWithKey pf iv key plaintext =
     (let encoded = encode pf plaintext;
          ciphertext = encrypt pf key iv encoded
      in JObj [(''iv'', Array_from iv), (''data'', Array_from ciphertext)])"

text \<open>
  \<^verbatim>\<open>new Uint8Array(v)\<close>. On an array of numbers every element is truncated to an integer
  and taken modulo 256; on any other value the platform decides.
\<close>

fun numbers :: "json list \<Rightarrow> real list option" where
  "numbers [] = Some []"
| "numbers (JNum x # vs) = map_option ((#) x) (numbers vs)"
| "numbers (v # vs) = None"

definition ToUint8 :: "real \<Rightarrow> byte" where
  "ToUint8 x = word_of_int (if 0 \<le> x then \<lfloor>x\<rfloor> else \<lceil>x\<rceil>)"

definition new_Uint8Array :: "('priv, 'pub, 'key) platform \<Rightarrow> jsvalue \<Rightarrow> error + byte list" where
  "new_Uint8Array pf v =
     (case v of
        Some (JArr vs) \<Rightarrow>
          (case numbers vs of
             Some xs \<Rightarrow> Inr (map ToUint8 xs)
           | None \<Rightarrow> Uint8Array_of pf v)
      | _ \<Rightarrow> Uint8Array_of pf v)"

text \<open>Property access on a value that may be \<^verbatim>\<open>undefined\<close>.\<close>

fun get_member :: "jsvalue \<Rightarrow> string \<Rightarrow> error + jsvalue" where
  "get_member None k = Inl TypeError"
| "get_member (Some v) k = get_prop v k"

text \<open>
  \<^verbatim>\<open>decryptWithKey\<close>. The arguments of \<^verbatim>\<open>crypto.subtle.decrypt\<close> are evaluated from left
  to right; a failed authentication rejects with an OperationError.
\<close>

definition decryptWithKey ::
  "('priv, 'pub, 'key) platform \<Rightarrow> 'key \<Rightarrow> jsvalue \<Rightarrow> error + string" where
  "decryptWithKey pf key encrypted =
     (case get_member encrypted ''iv'' of
        Inl e \<Rightarrow> Inl e
      | Inr iv_numbers \<Rightarrow>
     (case new_Uint8Array pf iv_numbers of
        Inl e \<Rightarrow> Inl e
      | Inr iv \<Rightarrow>
     (case get_member encrypted ''data'' of
        Inl e \<Rightarrow> Inl e
      | Inr data_numbers \<Rightarrow>
     (case new_Uint8Array pf data_numbers of
        Inl e \<Rightarrow> Inl e
      | Inr data \<Rightarrow>
     (case decrypt pf key iv data of
        Inl e \<Rightarrow> Inl e
      | Inr plaintext \<Rightarrow> Inr (decode pf plaintext))))))"

subsection \<open>State and handlers\<close>

text \<open>A list item appended to \<^verbatim>\<open>messages\<close>, by the two templates of the script.\<close>

datatype li =
    Received jsvalue string
  | Sent_to jsvalue string

text \<open>
  The script's variables (\<^verbatim>\<open>sessionId\<close>, \<^verbatim>\<open>myECDHKeyPair\<close>, \<^verbatim>\<open>peers\<close>), every
  frame it has written with \<^verbatim>\<open>ws.send\<close>, and what it has put on the page. The keys of
  \<^verbatim>\<open>peers\<close> are the identifiers as they arrive in frames; the relay only ever sends
  strings there, which the map compares by value.
\<close>

record ('priv, 'pub, 'key) browser =
  sessionId' :: jsvalue
  myECDHKeyPair :: "('priv, 'pub) CryptoKeyPair option"
  peers :: "jsvalue \<rightharpoonup> ('pub, 'key) Peer"
  sent :: "json list"
  myIdText :: jsvalue
  messages :: "li list"

definition page_load :: "('priv, 'pub, 'key) browser" where
  "page_load = \<lparr>sessionId' = Some JNull, myECDHKeyPair = None, peers = Map.empty,
                 sent = [], myIdText = None, messages = []\<rparr>"

text \<open>
  \<^verbatim>\<open>sendMessage\<close>; \<open>messageInput\<close> is the value of the message field when it runs and
  \<open>iv\<close> the random bytes drawn for the envelope.
\<close>

definition sendMessage ::
  "('priv, 'pub, 'key) platform \<Rightarrow> byte list \<Rightarrow> string \<Rightarrow> jsvalue \<Rightarrow>
     ('priv, 'pub, 'key) browser \<Rightarrow> ('priv, 'pub, 'key) browser" where
  "sendMessage pf iv messageInput recipientId st =
     (case peers st recipientId of
        None \<Rightarrow> st
      | Some peer \<Rightarrow>
          if messageInput = [] then st
          else
            (let encrypted = encryptWithKey pf iv (sharedKey peer) messageInput
             in st\<lparr>sent := sent st @
                       [JSON_stringify [(''type'', Some (JStr ''message'')),
                                        (''to'', recipientId),
                                        (''ciphertext'', Some encrypted)]],
                    messages := messages st @ [Sent_to recipientId messageInput]\<rparr>))"

text \<open>
  The first part of the message branch of \<^verbatim>\<open>ws.onmessage\<close>: a sender that is not in
  \<^verbatim>\<open>peers\<close> is entered with the key derived from the public key the frame carries,
  provided the own key pair exists.
\<close>

definition learn_sender ::
  "('priv, 'pub, 'key) platform \<Rightarrow> json \<Rightarrow> ('priv, 'pub, 'key) browser \<Rightarrow>
     error + ('priv, 'pub, 'key) browser" where
  "learn_sender pf msg st =
     (let senderId = prop_of msg ''from'' in
        case (peers st senderId, myECDHKeyPair st) of
          (None, Some mine) \<Rightarrow>
            (case importPublicKey pf (prop_of msg ''senderPublicKey'') of
               Inl e \<Rightarrow> Inl e
             | Inr pubKey \<Rightarrow>
                 (let shared = deriveSharedKey pf (privateKey mine) pubKey
                  in Inr (st\<lparr>peers := (peers st)(senderId \<mapsto>
                               \<lparr>publicKey_peer = pubKey, sharedKey = shared\<rparr>)\<rparr>)))
        | _ \<Rightarrow> Inr st)"

text \<open>
  \<^verbatim>\<open>ws.onmessage\<close>, run to its end: handlers are taken one after another, a handler
  that waits on the platform is not interleaved with the next event. The result is the
  state it leaves and, when the promise of the handler rejects, the exception it rejects
  with; what the handler had changed before the exception stays changed. \<open>generated\<close>
  is the key pair that \<^verbatim>\<open>generateECDHKeyPair\<close> yields if it is called. The three tests
  on \<^verbatim>\<open>msg.type\<close> exclude one another, so they are written as one chain.
\<close>

definition onmessage ::
  "('priv, 'pub, 'key) platform \<Rightarrow> ('priv, 'pub) CryptoKeyPair \<Rightarrow> byte list \<Rightarrow> string \<Rightarrow>
     string \<Rightarrow> ('priv, 'pub, 'key) browser \<Rightarrow> ('priv, 'pub, 'key) browser \<times> error option" where
  "onmessage pf generated iv messageInput data st =
     (case JSON_parse pf data of
        Inl e \<Rightarrow> (st, Some e)
      | Inr msg \<Rightarrow>
     (case get_prop msg ''type'' of
        Inl e \<Rightarrow> (st, Some e)
      | Inr ty \<Rightarrow>
          if ty = Some (JStr ''init'') then
            (let pubKey = exportPublicKey pf (publicKey_kp generated)
             in (st\<lparr>sessionId' := prop_of msg ''sessionId'',
                     myIdText := prop_of msg ''sessionId'',
                     myECDHKeyPair := Some generated,
                     sent := sent st @ [JSON_stringify [(''type'', Some (JStr ''publicKey'')),
                                                        (''key'', Some (JStr pubKey))]]\<rparr>,
                 None))
          else if ty = Some (JStr ''publicKey'') then
            (case myECDHKeyPair st of
               None \<Rightarrow> (st, None)
             | Some mine \<Rightarrow>
                 (let peerId = prop_of msg ''for'' in
                    case importPublicKey pf (prop_of msg ''key'') of
                      Inl e \<Rightarrow> (st, Some e)
                    | Inr pubKey \<Rightarrow>
                        (let shared = deriveSharedKey pf (privateKey mine) pubKey;
                             st1 = st\<lparr>peers := (peers st)(peerId \<mapsto>
                                      \<lparr>publicKey_peer = pubKey, sharedKey = shared\<rparr>)\<rparr>
                         in (sendMessage pf iv messageInput peerId st1, None))))
          else if ty = Some (JStr ''message'') then
            (let senderId = prop_of msg ''from'' in
               case learn_sender pf msg st of
                 Inl e \<Rightarrow> (st, Some e)
               | Inr st1 \<Rightarrow>
                   (case peers st1 senderId of
                      None \<Rightarrow> (st1, Some TypeError)
                    | Some peer \<Rightarrow>
                        (case decryptWithKey pf (sharedKey peer) (prop_of msg ''ciphertext'') of
                           Inl e \<Rightarrow> (st1, Some e)
                         | Inr plaintext \<Rightarrow>
                             (st1\<lparr>messages := messages st1 @ [Received senderId plaintext]\<rparr>,
                              None))))
          else (st, None)))"

text \<open>\<^verbatim>\<open>String.prototype.trim\<close> on a string of one-byte characters.\<close>

definition is_space :: "char \<Rightarrow> bool" where
  "is_space c = (of_char c \<in> {9, 10, 11, 12, 13, 32, 160 :: nat})"

definition trim :: "string \<Rightarrow> string" where
  "trim s = rev (dropWhile is_space (rev (dropWhile is_space s)))"

text \<open>The click handler of the send button, with the values of the two input fields.\<close>

definition on_click ::
  "('priv, 'pub, 'key) platform \<Rightarrow> byte list \<Rightarrow> string \<Rightarrow> string \<Rightarrow>
     ('priv, 'pub, 'key) browser \<Rightarrow> ('priv, 'pub, 'key) browser" where
  "on_click pf iv recipientInput messageInput st =
     (let recipientId = trim recipientInput in
        if recipientId = [] then st
        else if peers st (Some (JStr recipientId)) = None then
          st\<lparr>sent := sent st @ [JSON_stringify [(''type'', Some (JStr ''getPublicKey'')),
                                                 (''for'', Some (JStr recipientId))]]\<rparr>
        else sendMessage pf iv messageInput (Some (JStr recipientId)) st)"

subsection \<open>Runs of the client\<close>

text \<open>
  What happens to a page: a frame arrives (with the key pair and the random bytes the
  handler would draw, and the content of the message field at that moment), or the send
  button is clicked.
\<close>

datatype ('priv, 'pub) page_event =
    Arrives string "('priv, 'pub) CryptoKeyPair" "byte list" string
  | Click "byte list" string string

fun page_step ::
  "('priv, 'pub, 'key) platform \<Rightarrow> ('priv, 'pub, 'key) browser \<Rightarrow> ('priv, 'pub) page_event \<Rightarrow>
     ('priv, 'pub, 'key) browser" where
  "page_step pf st (Arrives data generated iv messageInput) =
     fst (onmessage pf generated iv messageInput data st)"
| "page_step pf st (Click iv recipientInput messageInput) =
     on_click pf iv recipientInput messageInput st"

definition page_run ::
  "('priv, 'pub, 'key) platform \<Rightarrow> ('priv, 'pub) page_event list \<Rightarrow> ('priv, 'pub, 'key) browser" where
  "page_run pf evs = foldl (page_step pf) page_load evs"

subsection \<open>What the client may write to its socket\<close>

text \<open>The public halves of the key pairs the platform generates during a run.\<close>

fun offered :: "('priv, 'pub) page_event \<Rightarrow> 'pub list" where
  "offered (Arrives data generated iv messageInput) = [publicKey_kp generated]"
| "offered (Click iv recipientInput messageInput) = []"

definition public_halves :: "('priv, 'pub) page_event list \<Rightarrow> 'pub set" where
  "public_halves evs = set (concat (map offered evs))"

text \<open>
  The three payloads: the export of one of the own public keys, a request that names a
  peer, and an envelope of an initialisation vector and the output of the AES-GCM
  encryption, addressed to a peer.
\<close>

definition wire_shape :: "('priv, 'pub, 'key) platform \<Rightarrow> 'pub set \<Rightarrow> json \<Rightarrow> bool" where
  "wire_shape pf pubs doc \<longleftrightarrow>
     (\<exists>pub \<in> pubs. doc = JObj [(''type'', JStr ''publicKey''),
                                (''key'', JStr (exportPublicKey pf pub))])
   \<or> (\<exists>peerId. doc = JObj [(''type'', JStr ''getPublicKey''), (''for'', JStr peerId)])
   \<or> (\<exists>peerId key iv text.
         doc = JSON_stringify
                 [(''type'', Some (JStr ''message'')),
                  (''to'', peerId),
                  (''ciphertext'',
                     Some (JObj [(''iv'', Array_from iv),
                                 (''data'', Array_from (encrypt pf key iv (encode pf text)))]))])"

text \<open>Every frame the page has written has one of the three shapes.\<close>

definition only_shaped :: "('priv, 'pub, 'key) platform \<Rightarrow> 'pub set \<Rightarrow> ('priv, 'pub, 'key) browser \<Rightarrow> bool" where
  "only_shaped pf pubs st = (\<forall>doc \<in> set (sent st). wire_shape pf pubs doc)"

section \<open>Fixtures for the worked examples\<close>

text \<open>\<^verbatim>\<open>JSON.parse\<close> on the handful of frames the examples below send.\<close>

definition publish_frame :: string where
  \<open>publish_frame = ''{"type":"publicKey","key":"BQ=="}''\<close>

definition publish_empty_frame :: string where
  \<open>publish_empty_frame = ''{"type":"publicKey","key":""}''\<close>

definition request_frame :: string where
  \<open>request_frame = ''{"type":"getPublicKey","for":"100000"}''\<close>

definition forward_frame :: string where
  \<open>forward_frame = ''{"type":"message","to":"550000","ciphertext":{"iv":[1],"data":[2]}}''\<close>

definition demo_parse :: "string \<Rightarrow> error + json" where
  \<open>demo_parse s =
     (if s = ''null'' then Inr JNull
      else if s = ''{"type":"ping"}'' then Inr (JObj [(''type'', JStr ''ping'')])
      else if s = ''{"type":"publicKey","key":"BQ=="}'' then
        Inr (JObj [(''type'', JStr ''publicKey''), (''key'', JStr ''BQ=='')])
      else if s = ''{"type":"publicKey","key":""}'' then
        Inr (JObj [(''type'', JStr ''publicKey''), (''key'', JStr '''')])
      else if s = ''{"type":"getPublicKey","for":"100000"}'' then
        Inr (JObj [(''type'', JStr ''getPublicKey''), (''for'', JStr ''100000'')])
      else if s = ''{"type":"message","to":"550000","ciphertext":{"iv":[1],"data":[2]}}'' then
        Inr (JObj [(''type'', JStr ''message''), (''to'', JStr ''550000''),
                   (''ciphertext'', JObj [(''iv'', JArr [JNum 1]), (''data'', JArr [JNum 2])])])
      else Inl SyntaxError)\<close>

text \<open>
  A small platform with the same interfaces, on which the examples run. Private keys are
  exponents and public keys are powers of 5 modulo 23 (Diffie-Hellman); a public key is
  exported as one byte and written in decimal in place of base-64; the cipher adds a pad
  made of the key and the initialisation vector to every byte and puts the pad in front as
  the authentication tag; text is encoded one byte per character.
\<close>

definition toy_btoa :: "string \<Rightarrow> string" where
  "toy_btoa s = (case s of [c] \<Rightarrow> decimal (of_char c) | _ \<Rightarrow> [])"

definition toy_atob :: "jsvalue \<Rightarrow> error + string" where
  "toy_atob v =
     (if v = Some (JStr ''8'') then Inr [char_of (8 :: nat)]
      else if v = Some (JStr ''19'') then Inr [char_of (19 :: nat)]
      else Inl InvalidCharacterError)"

definition toy_importKey :: "byte list \<Rightarrow> error + nat" where
  "toy_importKey bytes = (case bytes of [b] \<Rightarrow> Inr (unat b) | _ \<Rightarrow> Inl DataError)"

definition toy_pad :: "nat \<Rightarrow> byte list \<Rightarrow> byte" where
  "toy_pad k iv = word_of_nat k + sum_list iv"

definition toy_encrypt :: "nat \<Rightarrow> byte list \<Rightarrow> byte list \<Rightarrow> byte list" where
  "toy_encrypt k iv bytes = toy_pad k iv # map (\<lambda>b. b + toy_pad k iv) bytes"

definition toy_decrypt :: "nat \<Rightarrow> byte list \<Rightarrow> byte list \<Rightarrow> error + byte list" where
  "toy_decrypt k iv bytes =
     (case bytes of
        [] \<Rightarrow> Inl OperationError
      | tag # body \<Rightarrow>
          if tag = toy_pad k iv then Inr (map (\<lambda>b. b - toy_pad k iv) body)
          else Inl OperationError)"

definition init_frame :: string where
  \<open>init_frame = ''{"type":"init","sessionId":"100000"}''\<close>

definition init_frame_bob :: string where
  \<open>init_frame_bob = ''{"type":"init","sessionId":"550000"}''\<close>

definition response_frame :: string where
  \<open>response_frame = ''{"type":"publicKey","for":"100000","key":"8"}''\<close>

definition delivery_frame :: string where
  \<open>delivery_frame = ''{"type":"message","from":"550000","ciphertext":{"iv":[1],"data":[3,107,108]},"senderPublicKey":"19"}''\<close>

definition keyless_frame :: string where
  \<open>keyless_frame = ''{"type":"message","from":"550000","ciphertext":{"iv":[1],"data":[3,107,108]}}''\<close>

definition toy_parse :: "string \<Rightarrow> error + json" where
  "toy_parse s =
     (if s = init_frame then
        Inr (JObj [(''type'', JStr ''init''), (''sessionId'', JStr ''100000'')])
      else if s = init_frame_bob then
        Inr (JObj [(''type'', JStr ''init''), (''sessionId'', JStr ''550000'')])
      else if s = response_frame then
        Inr (JObj [(''type'', JStr ''publicKey''), (''for'', JStr ''100000''), (''key'', JStr ''8'')])
      else if s = delivery_frame then
        Inr (JObj [(''type'', JStr ''message''), (''from'', JStr ''550000''),
                   (''ciphertext'', JObj [(''iv'', JArr [JNum 1]),
                                          (''data'', JArr [JNum 3, JNum 107, JNum 108])]),
                   (''senderPublicKey'', JStr ''19'')])
      else if s = keyless_frame then
        Inr (JObj [(''type'', JStr ''message''), (''from'', JStr ''550000''),
                   (''ciphertext'', JObj [(''iv'', JArr [JNum 1]),
                                          (''data'', JArr [JNum 3, JNum 107, JNum 108])])])
      else Inl SyntaxError)"

definition toy :: "(nat, nat, nat) platform" where
  "toy = \<lparr>JSON_parse = toy_parse,
          atob = toy_atob,
          btoa = toy_btoa,
          exportKey = (\<lambda>P. [word_of_nat P]),
          importKey = toy_importKey,
          deriveKey = (\<lambda>a P. P ^ a mod 23),
          encrypt = toy_encrypt,
          decrypt = toy_decrypt,
          encode = charCodes,
          decode = fromCharCode,
          Uint8Array_of = (\<lambda>v. Inr [])\<rparr>"

text \<open>The key pairs of the two parties of the examples.\<close>

definition alice :: "(nat, nat) CryptoKeyPair" where
  "alice = \<lparr>privateKey = 6, publicKey_kp = 8\<rparr>"

definition bob :: "(nat, nat) CryptoKeyPair" where
  "bob = \<lparr>privateKey = 15, publicKey_kp = 19\<rparr>"

section \<open>Unrecognised frames\<close>

lemma dispatch_unknown:
  assumes "\<not> known_kind parsed"
  shows "dispatch sessionId ws parsed st = Inl TypeError
       \<or> dispatch sessionId ws parsed st =
           Inr (st\<lparr>console := console st @ [Console_warn ''Unknown message type'']\<rparr>)"
proof (cases "get_prop parsed ''type''")
  case (Inl e)
  then have "parsed = JNull" by (cases parsed) auto
  then show ?thesis by (simp add: dispatch_def)
next
  case (Inr ty)
  with assms show ?thesis by (simp add: dispatch_def known_kind_def)
qed

lemma on_message_unknown:
  assumes "parse data = Inr parsed" "\<not> known_kind parsed"
  shows "\<exists>entry. on_message parse sessionId ws data st = st\<lparr>console := console st @ [entry]\<rparr>"
proof -
  from dispatch_unknown [OF assms(2), of sessionId ws st]
  consider "dispatch sessionId ws parsed st = Inl TypeError"
    | "dispatch sessionId ws parsed st =
         Inr (st\<lparr>console := console st @ [Console_warn ''Unknown message type'']\<rparr>)"
    by blast
  then show ?thesis
  proof cases
    case 1
    then have "on_message parse sessionId ws data st = st\<lparr>console := console st @ [Console_error TypeError]\<rparr>"
      by (simp add: on_message_def assms(1))
    then show ?thesis ..
  next
    case 2
    then have "on_message parse sessionId ws data st =
        st\<lparr>console := console st @ [Console_warn ''Unknown message type'']\<rparr>"
      by (simp add: on_message_def assms(1))
    then show ?thesis ..
  qed
qed

text \<open>
  Claim C8. A frame that is not JSON, or whose kind is none of publicKey, getPublicKey and
  message, only adds one console entry: the registry, the frames written to every socket
  and the handlers of every connection stay as they were, and the handler returns.
\<close>

theorem unrecognised_frame_only_logged:
  assumes "(\<exists>e. parse data = Inl e) \<or> (\<exists>parsed. parse data = Inr parsed \<and> \<not> known_kind parsed)"
  shows "\<exists>entry. on_message parse sessionId ws data st = st\<lparr>console := console st @ [entry]\<rparr>"
  using assms
proof
  assume "\<exists>e. parse data = Inl e"
  then obtain e where "parse data = Inl e" ..
  then have "on_message parse sessionId ws data st = st\<lparr>console := console st @ [Console_error e]\<rparr>"
    by (simp add: on_message_def)
  then show ?thesis ..
next
  assume "\<exists>parsed. parse data = Inr parsed \<and> \<not> known_kind parsed"
  then obtain parsed where "parse data = Inr parsed" "\<not> known_kind parsed" by blast
  from on_message_unknown [where parse = parse and data = data, OF this] show ?thesis .
qed

theorem unrecognised_frame_only_logged_witness:
  \<open>demo_parse ''{"type":"ping"}'' = Inr (JObj [(''type'', JStr ''ping'')])
   \<and> \<not> known_kind (JObj [(''type'', JStr ''ping'')])
   \<and> (\<exists>entry. on_message demo_parse ''100000'' 1 ''{"type":"ping"}'' (on_connection 0 1 startup)
         = (on_connection 0 1 startup)\<lparr>console := console (on_connection 0 1 startup) @ [entry]\<rparr>)\<close>
proof -
  have a: \<open>demo_parse ''{"type":"ping"}'' = Inr (JObj [(''type'', JStr ''ping'')])\<close>
    by (simp add: demo_parse_def)
  have b: "\<not> known_kind (JObj [(''type'', JStr ''ping'')])"
    by (simp add: known_kind_def)
  from a b have c: \<open>(\<exists>e. demo_parse ''{"type":"ping"}'' = Inl e) \<or>
      (\<exists>parsed. demo_parse ''{"type":"ping"}'' = Inr parsed \<and> \<not> known_kind parsed)\<close>
    by simp
  note d = unrecognised_frame_only_logged [where parse = demo_parse and data = \<open>''{"type":"ping"}''\<close>
      and sessionId = "''100000''" and ws = 1 and st = "on_connection 0 1 startup", OF c]
  from a b d show ?thesis by (intro conjI)
qed
section \<open>Session identifiers\<close>















lemma id_0: "generateSessionId 0 = ''100000''"
  by (simp add: generateSessionId_def toString_def decimal.simps digit_char_def)

lemma id_half: "generateSessionId (1/2) = ''550000''"
  by (simp add: generateSessionId_def toString_def decimal.simps digit_char_def)

lemmas run_simps = run_def startup_def on_connection_def on_close_def send_def
  JSON_stringify_def List.map_filter_def Let_def id_0 id_half




section \<open>Dispatch of the three kinds of frame\<close>

lemma on_message_dispatched:
  assumes "parse data = Inr parsed" "dispatch sessionId ws parsed st = Inr st'"
  shows "on_message parse sessionId ws data st = st'"
  using assms by (simp add: on_message_def)

lemma on_message_thrown:
  assumes "parse data = Inr parsed" "dispatch sessionId ws parsed st = Inl e"
  shows "on_message parse sessionId ws data st = st\<lparr>console := console st @ [Console_error e]\<rparr>"
  using assms by (simp add: on_message_def)

text \<open>
  Claim C7, as the code has it. A publicKey frame stores the value of its \<^verbatim>\<open>key\<close>
  property as the public key of the entry under the sender's identifier; the entry's
  other members, the other entries, the written frames and the console stay as they were.
  When no entry is stored under that identifier, the assignment throws a TypeError, which
  the handler catches and reports with \<^verbatim>\<open>console.error\<close>; the registry is not changed.
\<close>

theorem publish_public_key:
  assumes "parse data = Inr parsed"
    and "get_prop parsed ''type'' = Inr (Some (JStr ''publicKey''))"
  shows "on_message parse sessionId ws data st =
     (case clients st sessionId of
        None \<Rightarrow> st\<lparr>console := console st @ [Console_error TypeError]\<rparr>
      | Some c \<Rightarrow> st\<lparr>clients := (clients st)(sessionId \<mapsto> c\<lparr>publicKey := prop_of parsed ''key''\<rparr>)\<rparr>)"
proof (cases "clients st sessionId")
  case None
  with assms(2) have "dispatch sessionId ws parsed st = Inl TypeError"
    by (simp add: dispatch_def)
  from on_message_thrown [where parse = parse and data = data, OF assms(1) this] None
  show ?thesis by simp
next
  case (Some c)
  with assms(2) have "dispatch sessionId ws parsed st =
      Inr (st\<lparr>clients := (clients st)(sessionId \<mapsto> c\<lparr>publicKey := prop_of parsed ''key''\<rparr>)\<rparr>)"
    by (simp add: dispatch_def)
  from on_message_dispatched [where parse = parse and data = data, OF assms(1) this] Some
  show ?thesis by simp
qed

text \<open>
  Claim C6, as the code has it. A getPublicKey frame is answered, on the requester's own
  socket, with one frame carrying the requested identifier and the stored key exactly
  when an entry is stored under that identifier and its stored key is truthy. In every
  other case the handler changes nothing: no frame is written, no console entry is made.
\<close>

theorem key_request:
  assumes "parse data = Inr parsed"
    and "get_prop parsed ''type'' = Inr (Some (JStr ''getPublicKey''))"
  shows "(\<forall>peerId rc k. prop_of parsed ''for'' = Some (JStr peerId) \<and> clients st peerId = Some rc
             \<and> publicKey rc = Some k \<and> truthy (Some k) \<longrightarrow>
           on_message parse sessionId ws data st =
             st\<lparr>outbox := outbox st @ [(ws, JObj [(''type'', JStr ''publicKey''),
                                                   (''for'', JStr peerId), (''key'', k)])]\<rparr>)
       \<and> ((\<nexists>peerId rc k. prop_of parsed ''for'' = Some (JStr peerId) \<and> clients st peerId = Some rc
             \<and> publicKey rc = Some k \<and> truthy (Some k)) \<longrightarrow>
           on_message parse sessionId ws data st = st)"
proof (intro conjI allI impI)
  fix peerId rc k
  assume h: "prop_of parsed ''for'' = Some (JStr peerId) \<and> clients st peerId = Some rc
             \<and> publicKey rc = Some k \<and> truthy (Some k)"
  with assms(2) have "dispatch sessionId ws parsed st =
      Inr (st\<lparr>outbox := outbox st @ [(ws, JObj [(''type'', JStr ''publicKey''),
                                                   (''for'', JStr peerId), (''key'', k)])]\<rparr>)"
    by (simp add: dispatch_def send_def JSON_stringify_def List.map_filter_def)
  from on_message_dispatched [where parse = parse and data = data, OF assms(1) this]
  show "on_message parse sessionId ws data st =
             st\<lparr>outbox := outbox st @ [(ws, JObj [(''type'', JStr ''publicKey''),
                                                   (''for'', JStr peerId), (''key'', k)])]\<rparr>" .
next
  assume n: "\<nexists>peerId rc k. prop_of parsed ''for'' = Some (JStr peerId) \<and> clients st peerId = Some rc
             \<and> publicKey rc = Some k \<and> truthy (Some k)"
  have "\<not> truthy (opt_publicKey (clients_get st (prop_of parsed ''for'')))"
  proof
    assume t: "truthy (opt_publicKey (clients_get st (prop_of parsed ''for'')))"
    then obtain rc where rc: "clients_get st (prop_of parsed ''for'') = Some rc"
      by (cases "clients_get st (prop_of parsed ''for'')") auto
    then obtain peerId where p: "prop_of parsed ''for'' = Some (JStr peerId)"
      by (cases "(st, prop_of parsed ''for'')" rule: clients_get.cases) auto
    with rc have c: "clients st peerId = Some rc" by simp
    from t rc obtain k where k: "publicKey rc = Some k" by (cases "publicKey rc") auto
    with t rc have "truthy (Some k)" by simp
    with n p c k show False by blast
  qed
  with assms(2) have "dispatch sessionId ws parsed st = Inr st"
    by (simp add: dispatch_def)
  from on_message_dispatched [where parse = parse and data = data, OF assms(1) this]
  show "on_message parse sessionId ws data st = st" .
qed

text \<open>
  Claim C5. A message frame whose target is in the registry makes the relay write exactly
  one frame, to the target's socket: the sender's identifier as \<^verbatim>\<open>from\<close>, the received
  \<^verbatim>\<open>ciphertext\<close> value as it came, and the key stored for the sender when there is one
  (no \<^verbatim>\<open>senderPublicKey\<close> property otherwise). When the target is not in the registry the
  state is unchanged: nothing is written to any socket and nothing is logged.
\<close>

theorem forward_message:
  assumes "parse data = Inr parsed"
    and "get_prop parsed ''type'' = Inr (Some (JStr ''message''))"
  shows "on_message parse sessionId ws data st =
     (case clients_get st (prop_of parsed ''to'') of
        None \<Rightarrow> st
      | Some recipient \<Rightarrow>
          st\<lparr>outbox := outbox st @
             [(socket recipient,
               JObj ([(''type'', JStr ''message''), (''from'', JStr sessionId)]
                     @ (case prop_of parsed ''ciphertext'' of
                          None \<Rightarrow> [] | Some envelope \<Rightarrow> [(''ciphertext'', envelope)])
                     @ (case opt_publicKey (clients st sessionId) of
                          None \<Rightarrow> [] | Some key \<Rightarrow> [(''senderPublicKey'', key)])))]\<rparr>)"
proof (cases "clients_get st (prop_of parsed ''to'')")
  case None
  with assms(2) have "dispatch sessionId ws parsed st = Inr st"
    by (simp add: dispatch_def)
  from on_message_dispatched [where parse = parse and data = data, OF assms(1) this] None
  show ?thesis by simp
next
  case (Some recipient)
  with assms(2) have "dispatch sessionId ws parsed st =
     Inr (st\<lparr>outbox := outbox st @
             [(socket recipient,
               JObj ([(''type'', JStr ''message''), (''from'', JStr sessionId)]
                     @ (case prop_of parsed ''ciphertext'' of
                          None \<Rightarrow> [] | Some envelope \<Rightarrow> [(''ciphertext'', envelope)])
                     @ (case opt_publicKey (clients st sessionId) of
                          None \<Rightarrow> [] | Some key \<Rightarrow> [(''senderPublicKey'', key)])))]\<rparr>)"
    by (simp add: dispatch_def send_def JSON_stringify_def List.map_filter_def split: option.splits)
  from on_message_dispatched [where parse = parse and data = data, OF assms(1) this] Some
  show ?thesis by simp
qed


lemmas frame_simps = demo_parse_def publish_frame_def publish_empty_frame_def request_frame_def
  forward_frame_def on_message_def dispatch_def

theorem publish_public_key_witness:
  "demo_parse publish_frame = Inr (JObj [(''type'', JStr ''publicKey''), (''key'', JStr ''BQ=='')])
   \<and> get_prop (JObj [(''type'', JStr ''publicKey''), (''key'', JStr ''BQ=='')]) ''type''
       = Inr (Some (JStr ''publicKey''))
   \<and> on_message demo_parse ''100000'' 1 publish_frame (run demo_parse [Connection 1 0])
       = (run demo_parse [Connection 1 0])\<lparr>clients :=
            (clients (run demo_parse [Connection 1 0]))(''100000'' \<mapsto>
               \<lparr>id' = ''100000'', socket = 1, publicKey = Some (JStr ''BQ=='')\<rparr>)\<rparr>"
proof -
  have a: "demo_parse publish_frame = Inr (JObj [(''type'', JStr ''publicKey''), (''key'', JStr ''BQ=='')])"
    by (simp add: frame_simps)
  have b: "get_prop (JObj [(''type'', JStr ''publicKey''), (''key'', JStr ''BQ=='')]) ''type''
       = Inr (Some (JStr ''publicKey''))"
    by simp
  have c: "clients (run demo_parse [Connection 1 0]) ''100000''
       = Some \<lparr>id' = ''100000'', socket = 1, publicKey = None\<rparr>"
    by (simp add: run_simps)
  note t = publish_public_key [where parse = demo_parse and data = publish_frame
      and sessionId = "''100000''" and ws = 1 and st = "run demo_parse [Connection 1 0]", OF a b]
  from a b t c show ?thesis by simp
qed

text \<open>
  A connection can outlive its registry entry (a later connection drew the same identifier
  and has closed). Its publicKey frame is then reported at error level, not at warning
  level.
\<close>

theorem publish_after_session_gone:
  "clients (run demo_parse [Connection 1 0, Connection 2 0, Close 2]) ''100000'' = None
   \<and> closures (run demo_parse [Connection 1 0, Connection 2 0, Close 2]) 1 = Some ''100000''
   \<and> console (run demo_parse [Connection 1 0, Connection 2 0, Close 2, Frame 1 publish_frame])
       = [Console_error TypeError]
   \<and> \<not> list_all warning_level
         (console (run demo_parse [Connection 1 0, Connection 2 0, Close 2, Frame 1 publish_frame]))"
  by (simp add: run_simps frame_simps)

theorem key_request_witness:
  "demo_parse request_frame = Inr (JObj [(''type'', JStr ''getPublicKey''), (''for'', JStr ''100000'')])
   \<and> get_prop (JObj [(''type'', JStr ''getPublicKey''), (''for'', JStr ''100000'')]) ''type''
       = Inr (Some (JStr ''getPublicKey''))
   \<and> clients (run demo_parse [Connection 1 0, Frame 1 publish_frame, Connection 2 (1/2)]) ''100000''
       = Some \<lparr>id' = ''100000'', socket = 1, publicKey = Some (JStr ''BQ=='')\<rparr>
   \<and> truthy (Some (JStr ''BQ==''))
   \<and> on_message demo_parse ''550000'' 2 request_frame
         (run demo_parse [Connection 1 0, Frame 1 publish_frame, Connection 2 (1/2)])
       = (run demo_parse [Connection 1 0, Frame 1 publish_frame, Connection 2 (1/2)])
           \<lparr>outbox := outbox (run demo_parse [Connection 1 0, Frame 1 publish_frame, Connection 2 (1/2)])
              @ [(2, JObj [(''type'', JStr ''publicKey''), (''for'', JStr ''100000''),
                           (''key'', JStr ''BQ=='')])]\<rparr>
   \<and> on_message demo_parse ''550000'' 2 request_frame
         (run demo_parse [Connection 1 0, Connection 2 (1/2)])
       = run demo_parse [Connection 1 0, Connection 2 (1/2)]"
proof -
  let ?parsed = "JObj [(''type'', JStr ''getPublicKey''), (''for'', JStr ''100000'')]"
  let ?st = "run demo_parse [Connection 1 0, Frame 1 publish_frame, Connection 2 (1/2)]"
  let ?early = "run demo_parse [Connection 1 0, Connection 2 (1/2)]"
  have a: "demo_parse request_frame = Inr ?parsed"
    by (simp add: frame_simps)
  have b: "get_prop ?parsed ''type'' = Inr (Some (JStr ''getPublicKey''))"
    by simp
  have c: "clients ?st ''100000'' = Some \<lparr>id' = ''100000'', socket = 1, publicKey = Some (JStr ''BQ=='')\<rparr>"
    by (simp add: run_simps frame_simps)
  have d: "clients ?early ''100000'' = Some \<lparr>id' = ''100000'', socket = 1, publicKey = None\<rparr>"
    by (simp add: run_simps)
  note t = key_request [where parse = demo_parse and data = request_frame
      and sessionId = "''550000''" and ws = 2, OF a b]
  from t [of ?st] c
  have e: "on_message demo_parse ''550000'' 2 request_frame ?st
       = ?st\<lparr>outbox := outbox ?st
              @ [(2, JObj [(''type'', JStr ''publicKey''), (''for'', JStr ''100000''),
                           (''key'', JStr ''BQ=='')])]\<rparr>"
    by simp
  from t [of ?early] d
  have f: "on_message demo_parse ''550000'' 2 request_frame ?early = ?early"
    by simp
  from a b c e f show ?thesis by simp
qed

text \<open>
  A session that has published the empty string as its key has a stored key, and a
  request for it is still not answered.
\<close>

theorem key_request_empty_key:
  "clients (run demo_parse [Connection 1 0, Frame 1 publish_empty_frame, Connection 2 (1/2)]) ''100000''
       = Some \<lparr>id' = ''100000'', socket = 1, publicKey = Some (JStr '''')\<rparr>
   \<and> closures (run demo_parse [Connection 1 0, Frame 1 publish_empty_frame, Connection 2 (1/2)]) 2
       = Some ''550000''
   \<and> outbox (run demo_parse [Connection 1 0, Frame 1 publish_empty_frame, Connection 2 (1/2),
                               Frame 2 request_frame])
       = outbox (run demo_parse [Connection 1 0, Frame 1 publish_empty_frame, Connection 2 (1/2)])"
  by (simp add: run_simps frame_simps)

theorem forward_message_witness:
  "demo_parse forward_frame
       = Inr (JObj [(''type'', JStr ''message''), (''to'', JStr ''550000''),
                   (''ciphertext'', JObj [(''iv'', JArr [JNum 1]), (''data'', JArr [JNum 2])])])
   \<and> get_prop (JObj [(''type'', JStr ''message''), (''to'', JStr ''550000''),
                   (''ciphertext'', JObj [(''iv'', JArr [JNum 1]), (''data'', JArr [JNum 2])])]) ''type''
       = Inr (Some (JStr ''message''))
   \<and> on_message demo_parse ''100000'' 1 forward_frame
         (run demo_parse [Connection 1 0, Frame 1 publish_frame, Connection 2 (1/2)])
       = (run demo_parse [Connection 1 0, Frame 1 publish_frame, Connection 2 (1/2)])
           \<lparr>outbox := outbox (run demo_parse [Connection 1 0, Frame 1 publish_frame, Connection 2 (1/2)])
              @ [(2, JObj [(''type'', JStr ''message''), (''from'', JStr ''100000''),
                           (''ciphertext'', JObj [(''iv'', JArr [JNum 1]), (''data'', JArr [JNum 2])]),
                           (''senderPublicKey'', JStr ''BQ=='')])]\<rparr>
   \<and> on_message demo_parse ''100000'' 1 forward_frame (run demo_parse [Connection 1 0])
       = run demo_parse [Connection 1 0]"
proof -
  let ?parsed = "JObj [(''type'', JStr ''message''), (''to'', JStr ''550000''),
                   (''ciphertext'', JObj [(''iv'', JArr [JNum 1]), (''data'', JArr [JNum 2])])]"
  let ?st = "run demo_parse [Connection 1 0, Frame 1 publish_frame, Connection 2 (1/2)]"
  let ?early = "run demo_parse [Connection 1 0]"
  have a: "demo_parse forward_frame = Inr ?parsed"
    by (simp add: frame_simps)
  have b: "get_prop ?parsed ''type'' = Inr (Some (JStr ''message''))"
    by simp
  have c: "clients ?st ''550000'' = Some \<lparr>id' = ''550000'', socket = 2, publicKey = None\<rparr>"
    "clients ?st ''100000'' = Some \<lparr>id' = ''100000'', socket = 1, publicKey = Some (JStr ''BQ=='')\<rparr>"
    by (simp_all add: run_simps frame_simps)
  have d: "clients ?early ''550000'' = None"
    by (simp add: run_simps)
  note t = forward_message [where parse = demo_parse and data = forward_frame
      and sessionId = "''100000''" and ws = 1, OF a b]
  from t [of ?st] c
  have e: "on_message demo_parse ''100000'' 1 forward_frame ?st
       = ?st\<lparr>outbox := outbox ?st
              @ [(2, JObj [(''type'', JStr ''message''), (''from'', JStr ''100000''),
                           (''ciphertext'', JObj [(''iv'', JArr [JNum 1]), (''data'', JArr [JNum 2])]),
                           (''senderPublicKey'', JStr ''BQ=='')])]\<rparr>"
    by simp
  from t [of ?early] d
  have f: "on_message demo_parse ''100000'' 1 forward_frame ?early = ?early"
    by simp
  from a b e f show ?thesis by simp
qed

section \<open>The client: keys, envelopes and the handling of frames\<close>

lemmas toy_simps = toy_def toy_parse_def toy_atob_def toy_btoa_def toy_importKey_def toy_pad_def
  toy_encrypt_def toy_decrypt_def init_frame_def init_frame_bob_def response_frame_def
  delivery_frame_def keyless_frame_def alice_def bob_def charCodes_def fromCharCode_def
  exportPublicKey_def importPublicKey_def deriveSharedKey_def
  char_of_def bit_iff_odd decimal.simps digit_char_def

lemmas page_simps = page_run_def page_load_def onmessage_def learn_sender_def sendMessage_def
  on_click_def encryptWithKey_def decryptWithKey_def new_Uint8Array_def Array_from_def
  ToUint8_def JSON_stringify_def List.map_filter_def Let_def






text \<open>
  Claim C10. A publicKey frame that arrives while \<^verbatim>\<open>myECDHKeyPair\<close> is still null is
  ignored: the handler ends without an exception and leaves the state as it was, so no
  peer is entered, no key is derived and nothing is written to the socket.
\<close>

theorem early_key_response_ignored:
  assumes "JSON_parse pf data = Inr msg"
    and "get_prop msg ''type'' = Inr (Some (JStr ''publicKey''))"
    and "myECDHKeyPair st = None"
  shows "onmessage pf generated iv messageInput data st = (st, None)"
  using assms by (simp add: onmessage_def)

theorem early_key_response_ignored_witness:
  "JSON_parse toy response_frame
       = Inr (JObj [(''type'', JStr ''publicKey''), (''for'', JStr ''100000''), (''key'', JStr ''8'')])
   \<and> get_prop (JObj [(''type'', JStr ''publicKey''), (''for'', JStr ''100000''), (''key'', JStr ''8'')])
         ''type'' = Inr (Some (JStr ''publicKey''))
   \<and> myECDHKeyPair (page_load :: (nat, nat, nat) browser) = None
   \<and> onmessage toy bob [1] ''hi'' response_frame page_load = (page_load, None)"
proof -
  let ?msg = "JObj [(''type'', JStr ''publicKey''), (''for'', JStr ''100000''), (''key'', JStr ''8'')]"
  have a: "JSON_parse toy response_frame = Inr ?msg"
    by (simp add: toy_simps)
  have b: "get_prop ?msg ''type'' = Inr (Some (JStr ''publicKey''))"
    by simp
  have c: "myECDHKeyPair (page_load :: (nat, nat, nat) browser) = None"
    by (simp add: page_load_def)
  from a b c early_key_response_ignored [where pf = toy and data = response_frame
      and generated = bob and iv = "[1]" and messageInput = "''hi''", OF a b c]
  show ?thesis by (intro conjI)
qed

text \<open>
  Claim C4. A message frame from a sender that is not in \<^verbatim>\<open>peers\<close>, whose embedded
  public key cannot be imported (it is missing or malformed), is dropped: the handler
  ends by rejecting with the exception of the import (a TypeError when the page has no
  key pair of its own yet) and leaves the state as it was. No peer is entered, nothing is
  shown and nothing is sent; the page goes on handling events.
\<close>

theorem unknown_sender_without_key_dropped:
  assumes "JSON_parse pf data = Inr msg"
    and "get_prop msg ''type'' = Inr (Some (JStr ''message''))"
    and "peers st (prop_of msg ''from'') = None"
    and "importPublicKey pf (prop_of msg ''senderPublicKey'') = Inl e"
  shows "onmessage pf generated iv messageInput data st =
           (st, Some (if myECDHKeyPair st = None then TypeError else e))"
proof (cases "myECDHKeyPair st")
  case None
  with assms(3) have "learn_sender pf msg st = Inr st"
    by (simp add: learn_sender_def)
  with assms(1-3) None show ?thesis
    by (simp add: onmessage_def)
next
  case (Some mine)
  with assms(3,4) have "learn_sender pf msg st = Inl e"
    by (simp add: learn_sender_def)
  with assms(1,2) Some show ?thesis
    by (simp add: onmessage_def)
qed

theorem unknown_sender_without_key_dropped_witness:
  "JSON_parse toy keyless_frame
       = Inr (JObj [(''type'', JStr ''message''), (''from'', JStr ''550000''),
                   (''ciphertext'', JObj [(''iv'', JArr [JNum 1]),
                                          (''data'', JArr [JNum 3, JNum 107, JNum 108])])])
   \<and> peers (page_run toy [Arrives init_frame alice [] []]) (Some (JStr ''550000'')) = None
   \<and> importPublicKey toy None = Inl InvalidCharacterError
   \<and> onmessage toy alice [] [] keyless_frame (page_run toy [Arrives init_frame alice [] []])
       = (page_run toy [Arrives init_frame alice [] []], Some InvalidCharacterError)"
proof -
  let ?msg = "JObj [(''type'', JStr ''message''), (''from'', JStr ''550000''),
                   (''ciphertext'', JObj [(''iv'', JArr [JNum 1]),
                                          (''data'', JArr [JNum 3, JNum 107, JNum 108])])]"
  let ?st = "page_run toy [Arrives init_frame alice [] []]"
  have a: "JSON_parse toy keyless_frame = Inr ?msg"
    by (simp add: toy_simps)
  have b: "get_prop ?msg ''type'' = Inr (Some (JStr ''message''))"
    by simp
  have c: "peers ?st (prop_of ?msg ''from'') = None"
    by (simp add: toy_simps page_simps)
  have d: "importPublicKey toy (prop_of ?msg ''senderPublicKey'') = Inl InvalidCharacterError"
    by (simp add: toy_simps)
  have e: "myECDHKeyPair ?st \<noteq> None"
    by (simp add: toy_simps page_simps)
  note t = unknown_sender_without_key_dropped [where pf = toy and data = keyless_frame
      and generated = alice and iv = "[]" and messageInput = "[]", OF a b c d]
  from a c d e t show ?thesis by simp
qed





lemma wire_shape_mono: "wire_shape pf P doc \<Longrightarrow> P \<subseteq> Q \<Longrightarrow> wire_shape pf Q doc"
  unfolding wire_shape_def by blast

lemma message_shape:
  "wire_shape pf pubs (JSON_stringify [(''type'', Some (JStr ''message'')), (''to'', peerId),
       (''ciphertext'', Some (encryptWithKey pf iv key text))])"
  unfolding wire_shape_def encryptWithKey_def Let_def by blast

lemma request_shape:
  "wire_shape pf pubs (JSON_stringify [(''type'', Some (JStr ''getPublicKey'')),
       (''for'', Some (JStr peerId))])"
  unfolding wire_shape_def by (simp add: JSON_stringify_def List.map_filter_def)

lemma publish_shape:
  "pub \<in> pubs \<Longrightarrow> wire_shape pf pubs (JSON_stringify [(''type'', Some (JStr ''publicKey'')),
       (''key'', Some (JStr (exportPublicKey pf pub)))])"
  unfolding wire_shape_def by (auto simp: JSON_stringify_def List.map_filter_def)

lemma shaped_sendMessage:
  "only_shaped pf pubs st \<Longrightarrow> only_shaped pf pubs (sendMessage pf iv messageInput recipientId st)"
  by (auto simp: only_shaped_def sendMessage_def Let_def message_shape split: option.splits)

lemma shaped_peers_update [simp]:
  "only_shaped pf pubs (st\<lparr>peers := ps\<rparr>) = only_shaped pf pubs st"
  by (simp add: only_shaped_def)

lemma shaped_messages_update [simp]:
  "only_shaped pf pubs (st\<lparr>messages := ms\<rparr>) = only_shaped pf pubs st"
  by (simp add: only_shaped_def)

lemma shaped_learn_sender:
  "only_shaped pf pubs st \<Longrightarrow> learn_sender pf msg st = Inr st1 \<Longrightarrow> only_shaped pf pubs st1"
  by (auto simp: learn_sender_def Let_def split: option.splits sum.splits prod.splits)

lemma shaped_onmessage:
  assumes "only_shaped pf pubs st" "publicKey_kp generated \<in> pubs"
  shows "only_shaped pf pubs (fst (onmessage pf generated iv messageInput data st))"
proof (cases "JSON_parse pf data")
  case (Inl e)
  with assms show ?thesis by (simp add: onmessage_def)
next
  case parsed: (Inr msg)
  show ?thesis
  proof (cases "get_prop msg ''type''")
    case (Inl e)
    with parsed assms show ?thesis by (simp add: onmessage_def)
  next
    case (Inr ty)
    consider (init) "ty = Some (JStr ''init'')" | (key) "ty = Some (JStr ''publicKey'')"
      | (message) "ty = Some (JStr ''message'')"
      | (other) "ty \<noteq> Some (JStr ''init'')" "ty \<noteq> Some (JStr ''publicKey'')" "ty \<noteq> Some (JStr ''message'')"
      by blast
    then show ?thesis
    proof cases
      case init
      with parsed Inr assms publish_shape [OF assms(2), of pf] show ?thesis
        by (simp add: onmessage_def Let_def only_shaped_def)
    next
      case key
      with parsed Inr assms(1) show ?thesis
        by (auto simp: onmessage_def Let_def shaped_sendMessage split: option.splits sum.splits)
    next
      case message
      with parsed Inr assms(1) shaped_learn_sender [of pf pubs st msg] show ?thesis
        by (auto simp: onmessage_def Let_def split: option.splits sum.splits)
    next
      case other
      with parsed Inr assms(1) show ?thesis by (simp add: onmessage_def)
    qed
  qed
qed

lemma shaped_on_click:
  assumes "only_shaped pf pubs st"
  shows "only_shaped pf pubs (on_click pf iv recipientInput messageInput st)"
proof -
  let ?rid = "trim recipientInput"
  consider (blank) "?rid = []"
    | (unknown) "?rid \<noteq> []" "peers st (Some (JStr ?rid)) = None"
    | (known) "?rid \<noteq> []" "peers st (Some (JStr ?rid)) \<noteq> None"
    by blast
  then show ?thesis
  proof cases
    case blank
    with assms show ?thesis by (simp add: on_click_def)
  next
    case unknown
    with assms request_shape [of pf pubs ?rid] show ?thesis
      by (simp add: on_click_def only_shaped_def Let_def)
  next
    case known
    with shaped_sendMessage [OF assms, of iv messageInput "Some (JStr ?rid)"] show ?thesis
      by (auto simp: on_click_def Let_def)
  qed
qed

lemma shaped_mono: "only_shaped pf P st \<Longrightarrow> P \<subseteq> Q \<Longrightarrow> only_shaped pf Q st"
  unfolding only_shaped_def using wire_shape_mono by blast

lemma shaped_step:
  assumes "only_shaped pf pubs st"
  shows "only_shaped pf (pubs \<union> set (offered e)) (page_step pf st e)"
proof (cases e)
  case (Arrives data generated iv messageInput)
  from assms have "only_shaped pf (pubs \<union> set (offered e)) st"
    by (rule shaped_mono) simp
  with Arrives show ?thesis by (simp add: shaped_onmessage)
next
  case (Click iv recipientInput messageInput)
  with assms show ?thesis by (simp add: shaped_on_click)
qed

lemma shaped_foldl:
  "only_shaped pf pubs st \<Longrightarrow>
     only_shaped pf (pubs \<union> public_halves evs) (foldl (page_step pf) st evs)"
proof (induction evs arbitrary: st pubs)
  case Nil
  then show ?case by (simp add: public_halves_def)
next
  case (Cons e evs)
  from shaped_step [OF Cons.prems, of e]
  have "only_shaped pf (pubs \<union> set (offered e) \<union> public_halves evs)
          (foldl (page_step pf) (page_step pf st e) evs)"
    by (rule Cons.IH)
  moreover have "pubs \<union> set (offered e) \<union> public_halves evs = pubs \<union> public_halves (e # evs)"
    by (auto simp: public_halves_def)
  ultimately show ?case by simp
qed

text \<open>
  Claim C9. Whatever frames arrive and whatever is clicked, every frame the page has
  written to its socket is the export of the public half of a key pair it generated, a
  request naming a peer, or an envelope of an initialisation vector and the output of the
  AES-GCM encryption. A private key or a derived key is no part of any frame, and a
  plaintext enters one only as input of the encryption.
\<close>

theorem only_public_material_sent:
  "\<forall>doc \<in> set (sent (page_run pf evs)). wire_shape pf (public_halves evs) doc"
proof -
  have "only_shaped pf {} page_load" by (simp add: only_shaped_def page_load_def)
  from shaped_foldl [OF this, of evs] show ?thesis
    by (simp add: only_shaped_def page_run_def)
qed

theorem only_public_material_sent_witness:
  "sent (page_run toy [Arrives init_frame_bob bob [] [], Click [] ''100000 '' ''hi'',
                      Arrives response_frame bob [1] ''hi''])
     = [JObj [(''type'', JStr ''publicKey''), (''key'', JStr ''19'')],
        JObj [(''type'', JStr ''getPublicKey''), (''for'', JStr ''100000'')],
        JObj [(''type'', JStr ''message''), (''to'', JStr ''100000''),
              (''ciphertext'', JObj [(''iv'', JArr [JNum 1]),
                                     (''data'', JArr [JNum 3, JNum 107, JNum 108])])]]
   \<and> wire_shape toy
        (public_halves [Arrives init_frame_bob bob [] [], Click [] ''100000 '' ''hi'',
                        Arrives response_frame bob [1] ''hi''])
        (JObj [(''type'', JStr ''message''), (''to'', JStr ''100000''),
              (''ciphertext'', JObj [(''iv'', JArr [JNum 1]),
                                     (''data'', JArr [JNum 3, JNum 107, JNum 108])])])"
proof -
  let ?evs = "[Arrives init_frame_bob bob [] [], Click [] ''100000 '' ''hi'',
               Arrives response_frame bob [1] ''hi'']"
  have s: "sent (page_run toy ?evs)
     = [JObj [(''type'', JStr ''publicKey''), (''key'', JStr ''19'')],
        JObj [(''type'', JStr ''getPublicKey''), (''for'', JStr ''100000'')],
        JObj [(''type'', JStr ''message''), (''to'', JStr ''100000''),
              (''ciphertext'', JObj [(''iv'', JArr [JNum 1]),
                                     (''data'', JArr [JNum 3, JNum 107, JNum 108])])]]"
    by (simp add: toy_simps page_simps trim_def is_space_def del: of_nat_unat)
  from only_public_material_sent [of toy ?evs] s show ?thesis
    by simp
qed

end
